theory Spec2Isabelle
  imports Main
begin

unbundle bit_operations_syntax

section \<open>The arrow-focus behaviour of \<^verbatim>\<open>src/behaviors/arrowFocus.ts\<close>\<close>

text \<open>
  The behaviour is one closure, \<^verbatim>\<open>arrowFocus(container, options)\<close>, whose local
  variables are the controller state and whose inner functions and event listeners
  mutate that state and the DOM. The embedding makes the closure's variables and the
  part of the DOM the code reads or writes one record, and every inner function and
  listener a function from that record to the updated record.
\<close>

subsection \<open>Keys\<close>

datatype Direction = Previous | Next

definition ArrowHorizontal :: nat where "ArrowHorizontal = 1"
definition ArrowVertical :: nat where "ArrowVertical = 2"
definition JK :: nat where "JK = 4"
definition HL :: nat where "HL = 8"
definition HomeAndEnd :: nat where "HomeAndEnd = 16"
definition PageUpDown :: nat where "PageUpDown = 256"
definition WS :: nat where "WS = 32"
definition AD :: nat where "AD = 64"
definition TabBit :: nat where "TabBit = 128"
definition ArrowAll :: nat where "ArrowAll = ArrowHorizontal OR ArrowVertical"
definition HJKL :: nat where "HJKL = JK OR HL"
definition WASD :: nat where "WASD = WS OR AD"
definition AllKeys :: nat where
  "AllKeys = ArrowAll OR HJKL OR HomeAndEnd OR PageUpDown OR WASD OR TabBit"

definition KEY_TO_BIT :: "(string \<times> nat) list" where
  "KEY_TO_BIT =
    [(''ArrowLeft'', 1), (''ArrowDown'', 2), (''ArrowUp'', 2), (''ArrowRight'', 1),
     (''h'', 8), (''j'', 4), (''k'', 4), (''l'', 8),
     (''a'', 64), (''s'', 32), (''w'', 32), (''d'', 64),
     (''Tab'', 128), (''Home'', 16), (''End'', 16),
     (''PageUp'', 256), (''PageDown'', 256)]"

definition KEY_TO_DIRECTION :: "(string \<times> Direction) list" where
  "KEY_TO_DIRECTION =
    [(''ArrowLeft'', Previous), (''ArrowDown'', Next), (''ArrowUp'', Previous),
     (''ArrowRight'', Next),
     (''h'', Previous), (''j'', Next), (''k'', Previous), (''l'', Next),
     (''a'', Previous), (''s'', Next), (''w'', Previous), (''d'', Next),
     (''Tab'', Next), (''Home'', Previous), (''End'', Next),
     (''PageUp'', Previous), (''PageDown'', Next)]"

text \<open>
  What \<^verbatim>\<open>shouldIgnoreFocusHandling\<close> reads of \<^verbatim>\<open>document.activeElement\<close>: which of the
  three \<^verbatim>\<open>instanceof\<close> tests it passes (an \<^verbatim>\<open>HTMLInputElement\<close> counts only with
  \<^verbatim>\<open>type === 'text'\<close>), its selection and the length of its value.
\<close>

datatype elem_kind = TextInput | TextArea | SelectBox | OtherElement

record KeyboardEvent =
  key :: string
  shiftKey :: bool
  metaKey :: bool
  ctrlKey :: bool
  defaultPrevented :: bool
  activeKind :: elem_kind
  selectionStart :: "nat option"
  selectionEnd :: "nat option"
  valueLength :: nat

definition getDirection :: "KeyboardEvent \<Rightarrow> Direction option" where
  "getDirection keyboardEvent =
    (let direction = map_of KEY_TO_DIRECTION (key keyboardEvent)
     in if key keyboardEvent = ''Tab'' \<and> shiftKey keyboardEvent then Some Previous
        else direction)"

text \<open>
  \<^verbatim>\<open>[...key].length\<close> counts code points. The function only runs for keys of
  \<^verbatim>\<open>KEY_TO_DIRECTION\<close>, which are ASCII, where that is the length of the string.
  \<open>isMac\<close> is the result of \<^verbatim>\<open>isMacOS()\<close>, whose source is not part of this file.
\<close>

definition shouldIgnoreFocusHandling :: "bool \<Rightarrow> KeyboardEvent \<Rightarrow> bool" where
  "shouldIgnoreFocusHandling isMac ev =
    (let k = key ev;
         keyLength = length k;
         isTextInput = (activeKind ev = TextInput \<or> activeKind ev = TextArea);
         isSelect = (activeKind ev = SelectBox)
     in if isTextInput \<and> (keyLength = 1 \<or> k = ''Home'' \<or> k = ''End'') then True
        else if isSelect \<and>
                ((k = ''ArrowDown'' \<and> \<not> (if isMac then metaKey ev else ctrlKey ev))
                 \<or> keyLength = 1) then True
        else if activeKind ev = TextArea \<and> (k = ''PageUp'' \<or> k = ''PageDown'') then True
        else if isTextInput then
          (let cursorAtStart = (selectionStart ev = Some 0 \<and> selectionEnd ev = Some 0);
               cursorAtEnd = (selectionStart ev = Some (valueLength ev)
                              \<and> selectionEnd ev = Some (valueLength ev))
           in if k = ''ArrowLeft'' \<and> \<not> cursorAtStart then True
              else if k = ''ArrowRight'' \<and> \<not> cursorAtEnd then True
              else if activeKind ev = TextArea then
                (if k = ''ArrowUp'' \<and> \<not> cursorAtStart then True
                 else if k = ''ArrowDown'' \<and> \<not> cursorAtEnd then True
                 else False)
              else False)
        else False)"

subsection \<open>Options and state\<close>

type_synonym elem = nat

datatype FocusInStrategy = First | PreviousStrategy | Custom "elem \<Rightarrow> elem option"

text \<open>
  \<^verbatim>\<open>ArrowFocusOptions\<close>, with the three collaborators the file imports
  (\<^verbatim>\<open>isMacOS\<close>, \<^verbatim>\<open>uniqueId\<close>, \<^verbatim>\<open>isFocusable\<close>) as further fields.
  \<open>activeDescendantControl\<close> is \<^verbatim>\<open>activeDescendantOptions.controllingElement\<close>;
  \<open>hasActiveDescendantCallback\<close> says whether \<^verbatim>\<open>onActiveDescendantChanged\<close> was given
  (its calls are recorded in the state). \<open>abortSignal\<close> says whether the caller passed
  a signal of its own.
\<close>

record ArrowFocusOptions =
  circular :: bool
  getNextFocusable ::
    "(Direction option \<Rightarrow> bool \<Rightarrow> elem option \<Rightarrow> KeyboardEvent \<Rightarrow> elem option) option"
  focusableElementFilter :: "(elem \<Rightarrow> bool) option"
  bindKeysOption :: "nat option"
  abortSignal :: bool
  activeDescendantControl :: "elem option"
  hasActiveDescendantCallback :: bool
  focusInStrategy :: FocusInStrategy
  isMacOS :: bool
  uniqueId :: "nat \<Rightarrow> string"
  isFocusable :: "elem \<Rightarrow> bool"

definition bindKeys :: "ArrowFocusOptions \<Rightarrow> nat" where
  "bindKeys options =
    (case bindKeysOption options of
       Some b \<Rightarrow> b
     | None \<Rightarrow> (if getNextFocusable options \<noteq> None then ArrowAll else ArrowVertical)
               OR HomeAndEnd)"

text \<open>
  The closure's variables (\<open>tabbableElements\<close> to \<open>elementIndexFocusedByClick\<close>), the DOM
  the code touches (\<open>tabindex\<close> and \<open>elem_id\<close> are the attributes of each element, the
  empty string being a missing \<^verbatim>\<open>id\<close>; \<open>aria_activedescendant\<close> is the attribute of the
  controlling element; \<open>docpos\<close> is the position of an element in document order, which
  is what \<^verbatim>\<open>compareDocumentPosition\<close> compares; \<open>containerContains\<close> is
  \<^verbatim>\<open>container.contains\<close>; \<open>activeElement\<close> is \<^verbatim>\<open>document.activeElement\<close>), and what the
  code hands to its environment: the calls of \<^verbatim>\<open>onActiveDescendantChanged\<close> in order,
  the number of \<^verbatim>\<open>console.warn\<close> calls, the number of exceptions a listener let
  escape, the seed of \<^verbatim>\<open>uniqueId\<close>, and the two abort signals.
\<close>

record state =
  tabbableElements :: "elem list"
  savedTabIndex :: "elem \<rightharpoonup> string option"
  allSeenTabbableElements :: "elem set"
  currentFocusedIndex :: int
  activeDescendantSuspended :: bool
  currentFocusedElement :: "elem option"
  elementIndexFocusedByClick :: "int option"
  tabindex :: "elem \<Rightarrow> string option"
  elem_id :: "elem \<Rightarrow> string"
  aria_activedescendant :: "string option"
  docpos :: "elem \<Rightarrow> nat"
  containerContains :: "elem \<Rightarrow> bool"
  activeElement :: "elem option"
  callbackCalls :: "(elem option \<times> elem option) list"
  warnings :: nat
  uncaughtErrors :: nat
  idSeed :: nat
  controllerAborted :: bool
  externalAborted :: bool

subsection \<open>Array primitives\<close>

text \<open>\<^verbatim>\<open>Array.prototype.findIndex\<close>: the first index whose element passes, or \<open>-1\<close>.\<close>

fun findIndex :: "('a \<Rightarrow> bool) \<Rightarrow> 'a list \<Rightarrow> int" where
  "findIndex P [] = - 1"
| "findIndex P (x # xs) =
    (if P x then 0
     else (let r = findIndex P xs in if r = - 1 then - 1 else r + 1))"

text \<open>\<^verbatim>\<open>xs[i]\<close>: \<^verbatim>\<open>undefined\<close> outside the array's range, also for a negative index.\<close>

definition at_index :: "'a list \<Rightarrow> int \<Rightarrow> 'a option" where
  "at_index xs i = (if 0 \<le> i \<and> i < int (length xs) then Some (xs ! nat i) else None)"

text \<open>\<^verbatim>\<open>xs.splice(i, 0, ...ys)\<close> and \<^verbatim>\<open>xs.splice(i, 1)\<close>, for \<open>0 \<le> i \<le> length xs\<close>.\<close>

definition splice_insert :: "nat \<Rightarrow> 'a list \<Rightarrow> 'a list \<Rightarrow> 'a list" where
  "splice_insert i ys xs = take i xs @ ys @ drop i xs"

definition splice_remove :: "nat \<Rightarrow> 'a list \<Rightarrow> 'a list" where
  "splice_remove i xs = take i xs @ drop (Suc i) xs"

subsection \<open>The inner functions\<close>

definition setTabindex :: "elem option \<Rightarrow> string \<Rightarrow> state \<Rightarrow> state" where
  "setTabindex target v s =
    (case target of
       None \<Rightarrow> s
     | Some e \<Rightarrow> s\<lparr>tabindex := (tabindex s)(e := Some v)\<rparr>)"

definition updateTabIndex ::
  "ArrowFocusOptions \<Rightarrow> elem option \<Rightarrow> elem option \<Rightarrow> state \<Rightarrow> state" where
  "updateTabIndex options from to s =
    (if activeDescendantControl options = None
     then setTabindex to ''0'' (setTabindex from ''-1'' s)
     else s)"

definition notifyActiveDescendant ::
  "ArrowFocusOptions \<Rightarrow> elem option \<Rightarrow> elem option \<Rightarrow> state \<Rightarrow> state" where
  "notifyActiveDescendant options newActive previousActive s =
    (if hasActiveDescendantCallback options
     then s\<lparr>callbackCalls := callbackCalls s @ [(newActive, previousActive)]\<rparr>
     else s)"

definition setActiveDescendant ::
  "ArrowFocusOptions \<Rightarrow> elem option \<Rightarrow> elem \<Rightarrow> state \<Rightarrow> state" where
  "setActiveDescendant options from to s =
    (let s1 = (if elem_id s to = ''''
               then s\<lparr>elem_id := (elem_id s)(to := uniqueId options (idSeed s)),
                      idSeed := Suc (idSeed s)\<rparr>
               else s);
         s2 = s1\<lparr>currentFocusedElement := Some to\<rparr>;
         s3 = (if activeDescendantControl options \<noteq> None
               then s2\<lparr>aria_activedescendant := Some (elem_id s2 to)\<rparr>
               else s2)
     in notifyActiveDescendant options (Some to) from s3)"

definition suspendActiveDescendant :: "ArrowFocusOptions \<Rightarrow> state \<Rightarrow> state" where
  "suspendActiveDescendant options s =
    (let s1 = (if activeDescendantControl options \<noteq> None
               then s\<lparr>aria_activedescendant := None\<rparr>
               else s);
         s2 = s1\<lparr>activeDescendantSuspended := True\<rparr>;
         s3 = notifyActiveDescendant options None (currentFocusedElement s2) s2
     in s3\<lparr>currentFocusedElement := None\<rparr>)"

text \<open>The body of the \<^verbatim>\<open>for\<close> loop of \<^verbatim>\<open>beginFocusManagement\<close>, for one element.\<close>

definition manageElement :: "state \<Rightarrow> elem \<Rightarrow> state" where
  "manageElement s element =
    (let s1 = (if element \<in> dom (savedTabIndex s) then s
               else s\<lparr>savedTabIndex := (savedTabIndex s)(element \<mapsto> tabindex s element)\<rparr>)
     in s1\<lparr>tabindex := (tabindex s1)(element := Some ''-1''),
           allSeenTabbableElements := insert element (allSeenTabbableElements s1)\<rparr>)"

definition passesFilter :: "ArrowFocusOptions \<Rightarrow> elem \<Rightarrow> bool" where
  "passesFilter options e =
    (case focusableElementFilter options of None \<Rightarrow> True | Some f \<Rightarrow> f e)"

definition beginFocusManagement :: "ArrowFocusOptions \<Rightarrow> elem list \<Rightarrow> state \<Rightarrow> state" where
  "beginFocusManagement options elements s =
    (let filteredElements = filter (passesFilter options) elements
     in if length filteredElements = 0 then s
        else
          (let insertIndex =
                 findIndex (\<lambda>e. docpos s (hd filteredElements) < docpos s e)
                   (tabbableElements s);
               at = (if insertIndex = - 1 then length (tabbableElements s)
                     else nat insertIndex);
               s1 = s\<lparr>tabbableElements :=
                        splice_insert at filteredElements (tabbableElements s)\<rparr>
           in foldl manageElement s1 filteredElements))"

definition endFocusManagement :: "ArrowFocusOptions \<Rightarrow> elem \<Rightarrow> state \<Rightarrow> state" where
  "endFocusManagement options element s =
    (let tabbableElementIndex = findIndex (\<lambda>e. e = element) (tabbableElements s);
         s1 = (if tabbableElementIndex \<ge> 0 then
                 (let s2 = s\<lparr>tabbableElements :=
                              splice_remove (nat tabbableElementIndex) (tabbableElements s)\<rparr>
                  in if tabindex s2 element = Some ''0'' \<and> length (tabbableElements s2) > 0
                     then (updateTabIndex options None (at_index (tabbableElements s2) 0) s2)
                            \<lparr>currentFocusedElement := at_index (tabbableElements s2) 0,
                             currentFocusedIndex := 0\<rparr>
                     else s2)
               else s)
     in s1\<lparr>savedTabIndex := (savedTabIndex s1)(element := None)\<rparr>)"

subsection \<open>Listeners\<close>

text \<open>
  The three listeners of the container are registered with \<^verbatim>\<open>{signal}\<close>, where
  \<^verbatim>\<open>signal = options?.abortSignal ?? controller.signal\<close>.
\<close>

definition signalAborted :: "ArrowFocusOptions \<Rightarrow> state \<Rightarrow> bool" where
  "signalAborted options s =
    (if abortSignal options then externalAborted s else controllerAborted s)"

text \<open>
  \<^verbatim>\<open>element.focus()\<close>: nothing happens when the element already has focus; otherwise
  it becomes \<^verbatim>\<open>document.activeElement\<close> and, when it is inside the container and the
  \<^verbatim>\<open>focusin\<close> listener is still attached, that listener runs synchronously, with the
  element that had focus as \<^verbatim>\<open>relatedTarget\<close>.
\<close>

definition focus_element ::
  "(elem \<Rightarrow> elem option \<Rightarrow> state \<Rightarrow> state) \<Rightarrow> ArrowFocusOptions \<Rightarrow> elem \<Rightarrow> state \<Rightarrow> state"
  where
  "focus_element listener options e s =
    (if activeElement s = Some e then s
     else (let s1 = s\<lparr>activeElement := Some e\<rparr>
           in if containerContains s e \<and> \<not> signalAborted options s
              then listener e (activeElement s) s1
              else s1))"

definition relatedOutside :: "state \<Rightarrow> elem option \<Rightarrow> bool" where
  "relatedOutside s relatedTarget =
    (case relatedTarget of None \<Rightarrow> False | Some r \<Rightarrow> \<not> containerContains s r)"

text \<open>
  The \<^verbatim>\<open>focusin\<close> listener; \<open>focusCall\<close> is what a call of \<^verbatim>\<open>.focus()\<close> inside it does.
  \<^verbatim>\<open>tabbableElements[0].focus()\<close> on an empty array throws, which ends the listener.
\<close>

definition focusin_handler ::
  "(elem \<Rightarrow> state \<Rightarrow> state) \<Rightarrow> ArrowFocusOptions \<Rightarrow> elem \<Rightarrow> elem option \<Rightarrow> state \<Rightarrow> state"
  where
  "focusin_handler focusCall options target relatedTarget s =
    (case elementIndexFocusedByClick s of
       Some clicked \<Rightarrow>
         (let s1 = (if clicked \<ge> 0 then
                      (let s2 = (if at_index (tabbableElements s) clicked
                                      \<noteq> currentFocusedElement s
                                 then updateTabIndex options (currentFocusedElement s)
                                        (at_index (tabbableElements s) clicked) s
                                 else s)
                       in s2\<lparr>currentFocusedIndex := clicked\<rparr>)
                    else s)
          in s1\<lparr>elementIndexFocusedByClick := None, currentFocusedElement := Some target\<rparr>)
     | None \<Rightarrow>
         (case focusInStrategy options of
            PreviousStrategy \<Rightarrow>
              (updateTabIndex options (currentFocusedElement s) (Some target) s)
                \<lparr>currentFocusedElement := Some target\<rparr>
          | First \<Rightarrow>
              (if relatedOutside s relatedTarget
                  \<and> Some target \<noteq> at_index (tabbableElements s) 0
               then (let s1 = s\<lparr>currentFocusedIndex := 0\<rparr>
                     in case at_index (tabbableElements s1) 0 of
                          None \<Rightarrow> s1\<lparr>uncaughtErrors := Suc (uncaughtErrors s1)\<rparr>
                        | Some first \<Rightarrow>
                            (focusCall first s1)\<lparr>currentFocusedElement := Some target\<rparr>)
               else (updateTabIndex options (currentFocusedElement s) (Some target) s)
                      \<lparr>currentFocusedElement := Some target\<rparr>)
          | Custom strategy \<Rightarrow>
              (if relatedOutside s relatedTarget then
                 (let elementToFocus = strategy (the relatedTarget);
                      requestedFocusElementIndex =
                        findIndex (\<lambda>e. Some e = elementToFocus) (tabbableElements s)
                  in if requestedFocusElementIndex \<ge> 0 \<and> elementToFocus \<noteq> None
                     then focusCall (the elementToFocus)
                            (s\<lparr>currentFocusedIndex := requestedFocusElementIndex\<rparr>)
                     else s\<lparr>warnings := Suc (warnings s),
                            currentFocusedElement := Some target\<rparr>)
               else (updateTabIndex options (currentFocusedElement s) (Some target) s)
                      \<lparr>currentFocusedElement := Some target\<rparr>)))"

text \<open>
  The listener as it runs for a \<^verbatim>\<open>.focus()\<close> issued by itself: the related target of
  that nested run is the outer target, which is inside the container, so the nested
  run never reaches a \<^verbatim>\<open>.focus()\<close> of its own (lemma \<open>focusin_handler_inside\<close>).
\<close>

definition focusin_nested ::
  "ArrowFocusOptions \<Rightarrow> elem \<Rightarrow> elem option \<Rightarrow> state \<Rightarrow> state" where
  "focusin_nested options =
    focusin_handler (\<lambda>e s. s\<lparr>activeElement := Some e\<rparr>) options"

definition focusin :: "ArrowFocusOptions \<Rightarrow> elem \<Rightarrow> elem option \<Rightarrow> state \<Rightarrow> state" where
  "focusin options =
    focusin_handler (focus_element (focusin_nested options) options) options"

definition mousedown :: "elem \<Rightarrow> state \<Rightarrow> state" where
  "mousedown target s =
    (if Some target \<noteq> activeElement s
     then s\<lparr>elementIndexFocusedByClick :=
               Some (findIndex (\<lambda>e. e = target) (tabbableElements s))\<rparr>
     else s)"

text \<open>
  The \<^verbatim>\<open>keydown\<close> listener, in three parts: the guard of the outer two \<^verbatim>\<open>if\<close>s, the
  block that computes the next index when no destination was supplied, and the
  listener itself, which also returns whether it called \<^verbatim>\<open>event.preventDefault()\<close>.
  The key bits and \<open>bindKeys\<close> are small non-negative masks, for which the 32-bit
  \<^verbatim>\<open>&\<close> of the source is the bitwise conjunction of naturals.
\<close>

definition keyHandled :: "ArrowFocusOptions \<Rightarrow> KeyboardEvent \<Rightarrow> bool" where
  "keyHandled options ev =
    (case map_of KEY_TO_BIT (key ev) of
       None \<Rightarrow> False
     | Some keyBit \<Rightarrow>
         map_of KEY_TO_DIRECTION (key ev) \<noteq> None
         \<and> \<not> defaultPrevented ev
         \<and> (keyBit AND bindKeys options) > 0
         \<and> \<not> shouldIgnoreFocusHandling (isMacOS options) ev)"

definition toEndOf :: "ArrowFocusOptions \<Rightarrow> KeyboardEvent \<Rightarrow> bool" where
  "toEndOf options ev =
    (let isMac = isMacOS options
     in key ev = ''Home'' \<or> key ev = ''End''
        \<or> (key ev \<noteq> ''Tab'' \<and> ((isMac \<and> metaKey ev) \<or> (\<not> isMac \<and> ctrlKey ev)))
        \<or> key ev = ''PageUp'' \<or> key ev = ''PageDown'')"

definition moveFocusedIndex ::
  "ArrowFocusOptions \<Rightarrow> KeyboardEvent \<Rightarrow> Direction option \<Rightarrow> bool \<Rightarrow> state \<Rightarrow> state" where
  "moveFocusedIndex options ev direction toEnd s =
    (let n = int (length (tabbableElements s));
         s1 = (if direction = Some Previous then
                 (if toEnd then s\<lparr>currentFocusedIndex := 0\<rparr>
                  else s\<lparr>currentFocusedIndex := currentFocusedIndex s - 1\<rparr>)
               else if direction = Some Next then
                 (if toEnd then s\<lparr>currentFocusedIndex := n - 1\<rparr>
                  else s\<lparr>currentFocusedIndex := currentFocusedIndex s + 1\<rparr>)
               else s);
         s2 = (if currentFocusedIndex s1 < 0 then
                 (if circular options \<and> key ev \<noteq> ''Tab''
                  then s1\<lparr>currentFocusedIndex := n - 1\<rparr>
                  else (let s' = (if activeDescendantControl options \<noteq> None
                                  then suspendActiveDescendant options s1 else s1)
                        in s'\<lparr>currentFocusedIndex := 0\<rparr>))
               else s1)
     in if currentFocusedIndex s2 \<ge> n then
          (if circular options \<and> key ev \<noteq> ''Tab''
           then s2\<lparr>currentFocusedIndex := 0\<rparr>
           else s2\<lparr>currentFocusedIndex := n - 1\<rparr>)
        else s2)"

text \<open>
  The call of the override resolver \<^verbatim>\<open>options.getNextFocusable\<close>, when there is one.
\<close>

definition suppliedDestination ::
  "ArrowFocusOptions \<Rightarrow> KeyboardEvent \<Rightarrow> state \<Rightarrow> elem option" where
  "suppliedDestination options ev s =
    (case getNextFocusable options of
       None \<Rightarrow> None
     | Some f \<Rightarrow> f (getDirection ev) (toEndOf options ev) (activeElement s) ev)"

text \<open>
  The destination the listener settles on (\<^verbatim>\<open>nextElementToFocus\<close>) together with the
  state at that point.
\<close>

definition chooseNext ::
  "ArrowFocusOptions \<Rightarrow> KeyboardEvent \<Rightarrow> state \<Rightarrow> state \<times> elem option" where
  "chooseNext options ev s =
    (let toEnd = toEndOf options ev;
         direction = getDirection ev
     in if activeDescendantSuspended s then
          (s\<lparr>activeDescendantSuspended := False\<rparr>,
           at_index (tabbableElements s) (currentFocusedIndex s))
        else
          (let supplied = suppliedDestination options ev s
           in if supplied = None then
                (let lastFocusedIndex = currentFocusedIndex s;
                     s1 = moveFocusedIndex options ev direction toEnd s
                 in (s1, if lastFocusedIndex \<noteq> currentFocusedIndex s1
                         then at_index (tabbableElements s1) (currentFocusedIndex s1)
                         else None))
              else (s, supplied)))"

definition keydown :: "ArrowFocusOptions \<Rightarrow> KeyboardEvent \<Rightarrow> state \<Rightarrow> state \<times> bool" where
  "keydown options ev s =
    (if keyHandled options ev then
       (case chooseNext options ev s of
          (s1, nextElementToFocus) \<Rightarrow>
            (let s2 = (case nextElementToFocus of
                         None \<Rightarrow> s1
                       | Some e \<Rightarrow>
                           (if activeDescendantControl options \<noteq> None
                            then setActiveDescendant options (currentFocusedElement s1) e s1
                            else focus_element (focusin options) options e s1))
             in (s2, key ev \<noteq> ''Tab'' \<or> nextElementToFocus \<noteq> None)))
     else (s, False))"

subsection \<open>The mutation observer and the behaviour as a whole\<close>

text \<open>One \<^verbatim>\<open>MutationRecord\<close>: its added nodes, then its removed nodes.\<close>

definition observeAdded :: "ArrowFocusOptions \<Rightarrow> state \<Rightarrow> elem \<Rightarrow> state" where
  "observeAdded options s addedNode =
    (if isFocusable options addedNode \<or> addedNode \<in> allSeenTabbableElements s
     then beginFocusManagement options [addedNode] s
     else s)"

definition observeRemoved :: "ArrowFocusOptions \<Rightarrow> state \<Rightarrow> elem \<Rightarrow> state" where
  "observeRemoved options s removedNode =
    (if removedNode \<in> dom (savedTabIndex s)
     then endFocusManagement options removedNode s
     else s)"

definition observeRecord ::
  "ArrowFocusOptions \<Rightarrow> state \<Rightarrow> elem list \<times> elem list \<Rightarrow> state" where
  "observeRecord options s mutation =
    foldl (observeRemoved options) (foldl (observeAdded options) s (fst mutation))
      (snd mutation)"

definition observer :: "ArrowFocusOptions \<Rightarrow> (elem list \<times> elem list) list \<Rightarrow> state \<Rightarrow> state"
  where
  "observer options mutations s = foldl (observeRecord options) s mutations"

text \<open>
  The body of \<^verbatim>\<open>arrowFocus\<close> up to the registration of the listeners, on a DOM given
  as a state whose closure variables are still empty; \<open>focusable\<close> is what
  \<^verbatim>\<open>iterateFocusableElements(container)\<close> yields.
\<close>

definition arrowFocus :: "ArrowFocusOptions \<Rightarrow> elem list \<Rightarrow> state \<Rightarrow> state" where
  "arrowFocus options focusable page =
    (let s1 = beginFocusManagement options focusable
                (page\<lparr>tabbableElements := [], savedTabIndex := Map.empty,
                     allSeenTabbableElements := {}\<rparr>);
         s2 = updateTabIndex options None (at_index (tabbableElements s1) 0) s1
     in s2\<lparr>currentFocusedIndex := 0,
           activeDescendantSuspended := (activeDescendantControl options \<noteq> None),
           currentFocusedElement :=
             (if activeDescendantControl options \<noteq> None then None
              else at_index (tabbableElements s2) 0),
           elementIndexFocusedByClick := None,
           controllerAborted := False\<rparr>)"

text \<open>
  What can happen to a running behaviour. The \<^verbatim>\<open>focusout\<close> listener of the controlling
  element is registered without a signal, and the observer is never disconnected.
\<close>

datatype event =
    KeyDown KeyboardEvent
  | FocusIn elem "elem option"
  | MouseDown elem
  | FocusOut
  | Mutations "(elem list \<times> elem list) list"
  | Abort

definition dispatch :: "ArrowFocusOptions \<Rightarrow> event \<Rightarrow> state \<Rightarrow> state" where
  "dispatch options ev s =
    (case ev of
       KeyDown e \<Rightarrow> (if signalAborted options s then s else fst (keydown options e s))
     | FocusIn target relatedTarget \<Rightarrow>
         (let s1 = s\<lparr>activeElement := Some target\<rparr>
          in if signalAborted options s \<or> \<not> containerContains s target then s1
             else focusin options target relatedTarget s1)
     | MouseDown target \<Rightarrow>
         (if signalAborted options s \<or> \<not> containerContains s target then s
          else mousedown target s)
     | FocusOut \<Rightarrow>
         (if activeDescendantControl options \<noteq> None
          then suspendActiveDescendant options s else s)
     | Mutations mutations \<Rightarrow> observer options mutations s
     | Abort \<Rightarrow> s\<lparr>controllerAborted := True\<rparr>)"

subsection \<open>Notions the properties are stated with\<close>

text \<open>A list of elements is in document order, strictly: no position occurs twice.\<close>

definition inDocumentOrder :: "state \<Rightarrow> elem list \<Rightarrow> bool" where
  "inDocumentOrder s xs = sorted_wrt (\<lambda>a b. docpos s a < docpos s b) xs"

text \<open>
  A batch fits the tracked collection when what survives the filter is in document
  order and every tracked element lies before its first or after its last element, so
  that one insertion point serves the whole batch.
\<close>

definition batchFits :: "ArrowFocusOptions \<Rightarrow> state \<Rightarrow> elem list \<Rightarrow> bool" where
  "batchFits options s batch =
    (let f = filter (passesFilter options) batch
     in inDocumentOrder s f
        \<and> (f = [] \<or> (\<forall>t\<in>set (tabbableElements s).
                        docpos s t < docpos s (hd f) \<or> docpos s (last f) < docpos s t)))"

datatype trackerOp = Offer "elem list" | Retire elem

fun applyOp :: "ArrowFocusOptions \<Rightarrow> state \<Rightarrow> trackerOp \<Rightarrow> state" where
  "applyOp options s (Offer batch) = beginFocusManagement options batch s"
| "applyOp options s (Retire element) = endFocusManagement options element s"

definition runOps :: "ArrowFocusOptions \<Rightarrow> trackerOp list \<Rightarrow> state \<Rightarrow> state" where
  "runOps options ops s = foldl (applyOp options) s ops"

fun opsFit :: "ArrowFocusOptions \<Rightarrow> state \<Rightarrow> trackerOp list \<Rightarrow> bool" where
  "opsFit options s [] = True"
| "opsFit options s (Offer batch # ops) =
    (batchFits options s batch \<and> opsFit options (beginFocusManagement options batch s) ops)"
| "opsFit options s (Retire element # ops) =
    opsFit options (endFocusManagement options element s) ops"

text \<open>
  The transition \<open>next(index, direction, toEnd, wrap, N, isTabKey)\<close> in the words of the
  specification (section 4.3), to compare \<open>moveFocusedIndex\<close> with.
\<close>

definition spec_next :: "int \<Rightarrow> Direction \<Rightarrow> bool \<Rightarrow> bool \<Rightarrow> int \<Rightarrow> bool \<Rightarrow> int" where
  "spec_next index direction toEnd wrap N isTabKey =
    (let result = (case direction of
                     Previous \<Rightarrow> (if toEnd then 0 else index - 1)
                   | Next \<Rightarrow> (if toEnd then N - 1 else index + 1))
     in if result < 0 then (if wrap \<and> \<not> isTabKey then N - 1 else 0)
        else if result \<ge> N then (if wrap \<and> \<not> isTabKey then 0 else N - 1)
        else result)"

subsection \<open>Concrete pages and options\<close>

text \<open>
  A page whose elements are numbered in document order, with the elements below 100
  inside the container and no attribute set, and the options of a roving and of an
  active-descendant behaviour (controlling element 100, change callback given).
\<close>

definition blankPage :: state where
  "blankPage =
    \<lparr>tabbableElements = [], savedTabIndex = Map.empty, allSeenTabbableElements = {},
     currentFocusedIndex = 0, activeDescendantSuspended = False,
     currentFocusedElement = None, elementIndexFocusedByClick = None,
     tabindex = (\<lambda>_. None), elem_id = (\<lambda>_. ''''), aria_activedescendant = None,
     docpos = (\<lambda>e. e), containerContains = (\<lambda>e. e < 100), activeElement = None,
     callbackCalls = [], warnings = 0, uncaughtErrors = 0, idSeed = 0,
     controllerAborted = False, externalAborted = False\<rparr>"

definition rovingOptions :: ArrowFocusOptions where
  "rovingOptions =
    \<lparr>circular = False, getNextFocusable = None, focusableElementFilter = None,
     bindKeysOption = None, abortSignal = False, activeDescendantControl = None,
     hasActiveDescendantCallback = False, focusInStrategy = PreviousStrategy,
     isMacOS = False, uniqueId = (\<lambda>n. ''id'' @ replicate n CHR ''x''),
     isFocusable = (\<lambda>_. True)\<rparr>"

definition descendantOptions :: ArrowFocusOptions where
  "descendantOptions =
    rovingOptions\<lparr>activeDescendantControl := Some 100, hasActiveDescendantCallback := True\<rparr>"

definition pressed :: "string \<Rightarrow> KeyboardEvent" where
  "pressed k =
    \<lparr>key = k, shiftKey = False, metaKey = False, ctrlKey = False, defaultPrevented = False,
     activeKind = OtherElement, selectionStart = None, selectionEnd = None, valueLength = 0\<rparr>"

definition tabOptions :: ArrowFocusOptions where
  "tabOptions = rovingOptions\<lparr>circular := True, bindKeysOption := Some AllKeys\<rparr>"

definition customOptions :: ArrowFocusOptions where
  "customOptions = rovingOptions\<lparr>focusInStrategy := Custom (\<lambda>_. None)\<rparr>"

text \<open>
  Behaviours started on a container with the focusable elements 10, 20 and 30, or with
  none, and the states a few key presses lead to from there.
\<close>

definition rovingThree :: state where
  "rovingThree = arrowFocus rovingOptions [10, 20, 30] blankPage"

definition customThree :: state where
  "customThree = arrowFocus customOptions [10, 20, 30] blankPage"

definition descendantThree :: state where
  "descendantThree = arrowFocus descendantOptions [10, 20, 30] blankPage"

definition descendantAtFirst :: state where
  "descendantAtFirst =
    dispatch descendantOptions (KeyDown (pressed ''ArrowDown'')) descendantThree"

definition descendantAtLast :: state where
  "descendantAtLast = dispatch descendantOptions (KeyDown (pressed ''End'')) descendantAtFirst"

definition rovingEmpty :: state where
  "rovingEmpty = arrowFocus rovingOptions [] blankPage"

definition descendantEmpty :: state where
  "descendantEmpty = arrowFocus descendantOptions [] blankPage"






section \<open>Properties\<close>

subsection \<open>Array primitives\<close>

lemma findIndex_none: "\<forall>x\<in>set xs. \<not> P x \<Longrightarrow> findIndex P xs = - 1"
  by (induction xs) auto

lemma findIndex_some:
  "\<exists>x\<in>set xs. P x \<Longrightarrow> findIndex P xs = int (length (takeWhile (\<lambda>x. \<not> P x) xs))"
proof (induction xs)
  case Nil
  then show ?case by simp
next
  case (Cons a xs)
  show ?case
  proof (cases "P a")
    case True
    then show ?thesis by simp
  next
    case False
    with Cons.prems have "\<exists>x\<in>set xs. P x" by simp
    then have "findIndex P xs = int (length (takeWhile (\<lambda>x. \<not> P x) xs))"
      by (rule Cons.IH)
    with False show ?thesis by (simp add: Let_def)
  qed
qed

lemma findIndex_member: "0 \<le> findIndex P xs \<longleftrightarrow> (\<exists>x\<in>set xs. P x)"
  using findIndex_none [of xs P] findIndex_some [of xs P] by fastforce

text \<open>The index the batch is spliced in at is where the first later element stands.\<close>

lemma insertion_point:
  "(if findIndex P xs = - 1 then length xs else nat (findIndex P xs))
     = length (takeWhile (\<lambda>x. \<not> P x) xs)"
proof (cases "\<exists>x\<in>set xs. P x")
  case True
  then show ?thesis by (simp add: findIndex_some)
next
  case False
  then have tw: "takeWhile (\<lambda>x. \<not> P x) xs = xs" by (simp add: takeWhile_eq_all_conv)
  from False have "findIndex P xs = - 1" by (intro findIndex_none) simp
  then show ?thesis by (simp add: tw)
qed

lemma splice_insert_at_insertion_point:
  "splice_insert (if findIndex P xs = - 1 then length xs else nat (findIndex P xs)) ys xs
     = takeWhile (\<lambda>x. \<not> P x) xs @ ys @ dropWhile (\<lambda>x. \<not> P x) xs"
  unfolding splice_insert_def insertion_point
  using takeWhile_eq_take [of "\<lambda>x. \<not> P x" xs] dropWhile_eq_drop [of "\<lambda>x. \<not> P x" xs]
  by simp

lemma splice_remove_findIndex:
  "x \<in> set xs \<Longrightarrow> splice_remove (nat (findIndex (\<lambda>e. e = x) xs)) xs = remove1 x xs"
proof (induction xs)
  case Nil
  then show ?case by simp
next
  case (Cons a xs)
  show ?case
  proof (cases "a = x")
    case True
    then show ?thesis by (simp add: splice_remove_def)
  next
    case False
    with Cons.prems have mem: "x \<in> set xs" by simp
    then have "\<exists>y\<in>set xs. y = x" by simp
    then have ix: "findIndex (\<lambda>e. e = x) xs = int (length (takeWhile (\<lambda>y. \<not> y = x) xs))"
      by (rule findIndex_some)
    have "splice_remove (nat (findIndex (\<lambda>e. e = x) xs)) xs = remove1 x xs"
      using mem by (rule Cons.IH)
    with False ix show ?thesis
      by (simp add: splice_remove_def Let_def nat_add_distrib)
  qed
qed

subsection \<open>The tracked collection\<close>

lemma foldl_manageElement_tabbable:
  "tabbableElements (foldl manageElement s es) = tabbableElements s"
  by (induction es arbitrary: s) (simp_all add: manageElement_def Let_def)

lemma foldl_manageElement_docpos:
  "docpos (foldl manageElement s es) = docpos s"
  by (induction es arbitrary: s) (simp_all add: manageElement_def Let_def)

lemma tabbable_beginFocusManagement:
  "tabbableElements (beginFocusManagement options elements s) =
    (let f = filter (passesFilter options) elements;
         P = (\<lambda>e. docpos s (hd f) < docpos s e)
     in if f = [] then tabbableElements s
        else takeWhile (\<lambda>x. \<not> P x) (tabbableElements s) @ f
               @ dropWhile (\<lambda>x. \<not> P x) (tabbableElements s))"
  using splice_insert_at_insertion_point
    [where P = "\<lambda>e. docpos s (hd (filter (passesFilter options) elements)) < docpos s e"
       and ys = "filter (passesFilter options) elements" and xs = "tabbableElements s"]
  by (simp add: beginFocusManagement_def Let_def foldl_manageElement_tabbable)

lemma docpos_beginFocusManagement:
  "docpos (beginFocusManagement options elements s) = docpos s"
  by (simp add: beginFocusManagement_def Let_def foldl_manageElement_docpos)

lemma tabbable_endFocusManagement:
  "tabbableElements (endFocusManagement options element s)
     = remove1 element (tabbableElements s)"
proof (cases "element \<in> set (tabbableElements s)")
  case True
  then have "0 \<le> findIndex (\<lambda>e. e = element) (tabbableElements s)"
    by (simp add: findIndex_member)
  with True show ?thesis
    by (simp add: endFocusManagement_def Let_def splice_remove_findIndex
        updateTabIndex_def setTabindex_def split: option.splits)
next
  case False
  then have "findIndex (\<lambda>e. e = element) (tabbableElements s) = - 1"
    by (intro findIndex_none) auto
  with False show ?thesis
    by (simp add: endFocusManagement_def Let_def remove1_idem)
qed

lemma docpos_endFocusManagement:
  "docpos (endFocusManagement options element s) = docpos s"
  by (simp add: endFocusManagement_def Let_def updateTabIndex_def setTabindex_def
      split: option.splits)

lemma strict_sorted_hd_le:
  "sorted_wrt (\<lambda>a b. (p a :: nat) < p b) f \<Longrightarrow> b \<in> set f \<Longrightarrow> p (hd f) \<le> p b"
  by (cases f) (auto simp: less_imp_le)

lemma strict_sorted_le_last:
  "sorted_wrt (\<lambda>a b. (p a :: nat) < p b) f \<Longrightarrow> b \<in> set f \<Longrightarrow> p b \<le> p (last f)"
proof (induction f)
  case Nil
  then show ?case by simp
next
  case (Cons a f)
  show ?case
  proof (cases "f = []")
    case True
    with Cons.prems show ?thesis by simp
  next
    case False
    then have lastmem: "last f \<in> set f" by simp
    show ?thesis
    proof (cases "b = a")
      case True
      with Cons.prems(1) lastmem have "p b < p (last f)" by simp
      with False show ?thesis by simp
    next
      case neq: False
      with Cons.prems have "b \<in> set f" and "sorted_wrt (\<lambda>a b. p a < p b) f" by simp_all
      then have "p b \<le> p (last f)" using Cons.IH by blast
      with False show ?thesis by simp
    qed
  qed
qed

lemma strict_sorted_dropWhile_all:
  assumes "sorted_wrt (\<lambda>a b. (p a :: nat) < p b) xs"
    and "c \<in> set (dropWhile (\<lambda>x. \<not> k < p x) xs)"
  shows "k < p c"
proof -
  define dw where "dw = dropWhile (\<lambda>x. \<not> k < p x) xs"
  from assms(2) have "0 < length dw" unfolding dw_def by (rule length_pos_if_in_set)
  then have ne: "dw \<noteq> []" by (metis length_greater_0_conv)
  have first: "k < p (hd dw)"
    using hd_dropWhile [of "\<lambda>x. \<not> k < p x" xs] ne unfolding dw_def by blast
  from assms(1) have "sorted_wrt (\<lambda>a b. p a < p b) dw"
    unfolding dw_def by (rule sorted_wrt_dropWhile)
  moreover from assms(2) have "c \<in> set dw" unfolding dw_def .
  ultimately have "p (hd dw) \<le> p c" by (rule strict_sorted_hd_le)
  with first show ?thesis by (rule less_le_trans)
qed

text \<open>
  Splicing a sorted run in at the insertion point of its first element keeps a sorted
  list sorted, provided no element of the list lies inside the run's span.
\<close>

lemma sorted_insert_run:
  fixes p :: "'a \<Rightarrow> nat"
  assumes xs: "sorted_wrt (\<lambda>a b. p a < p b) xs"
    and f: "sorted_wrt (\<lambda>a b. p a < p b) f"
    and ne: "f \<noteq> []"
    and fit: "\<forall>t\<in>set xs. p t < p (hd f) \<or> p (last f) < p t"
  shows "sorted_wrt (\<lambda>a b. p a < p b)
           (takeWhile (\<lambda>x. \<not> p (hd f) < p x) xs @ f @ dropWhile (\<lambda>x. \<not> p (hd f) < p x) xs)"
proof -
  define tw where "tw = takeWhile (\<lambda>x. \<not> p (hd f) < p x) xs"
  define dw where "dw = dropWhile (\<lambda>x. \<not> p (hd f) < p x) xs"
  from ne have "hd f \<in> set f" by simp
  with f have hd_last: "p (hd f) \<le> p (last f)" by (rule strict_sorted_le_last)
  have before: "p a < p b" if "a \<in> set tw" and "b \<in> set f" for a b
  proof -
    from that(1) have mem: "a \<in> set xs" and notlt: "\<not> p (hd f) < p a"
      unfolding tw_def using set_takeWhileD [of a "\<lambda>x. \<not> p (hd f) < p x" xs] by simp_all
    from fit mem have "p a < p (hd f) \<or> p (last f) < p a" by (rule bspec)
    with hd_last notlt have "p a < p (hd f)" by linarith
    moreover have "p (hd f) \<le> p b" using f that(2) by (rule strict_sorted_hd_le)
    ultimately show ?thesis by (rule less_le_trans)
  qed
  have after: "p b < p c" if "b \<in> set f" and "c \<in> set dw" for b c
  proof -
    have lt: "p (hd f) < p c"
      using xs that(2) unfolding dw_def by (rule strict_sorted_dropWhile_all)
    from that(2) have "c \<in> set xs" unfolding dw_def by (rule set_dropWhileD)
    with fit have "p c < p (hd f) \<or> p (last f) < p c" by (rule bspec)
    with lt have "p (last f) < p c" by linarith
    moreover have "p b \<le> p (last f)" using f that(1) by (rule strict_sorted_le_last)
    ultimately show ?thesis by linarith
  qed
  have "tw @ dw = xs" unfolding tw_def dw_def by (rule takeWhile_dropWhile_id)
  with xs have both: "sorted_wrt (\<lambda>a b. p a < p b) (tw @ dw)" by simp
  have tw: "sorted_wrt (\<lambda>a b. p a < p b) tw" and dw: "sorted_wrt (\<lambda>a b. p a < p b) dw"
    using both by (simp_all add: sorted_wrt_append)
  have across: "p a < p c" if "a \<in> set tw" and "c \<in> set dw" for a c
    using both that by (simp add: sorted_wrt_append)
  have "sorted_wrt (\<lambda>a b. p a < p b) (tw @ f @ dw)"
    using tw f dw before after across by (simp add: sorted_wrt_append) blast
  then show ?thesis unfolding tw_def dw_def .
qed

lemma offer_keeps_order:
  assumes "inDocumentOrder s (tabbableElements s)" and "batchFits options s batch"
  shows "inDocumentOrder (beginFocusManagement options batch s)
           (tabbableElements (beginFocusManagement options batch s))"
proof (cases "filter (passesFilter options) batch = []")
  case True
  with assms(1) show ?thesis
    by (simp add: inDocumentOrder_def tabbable_beginFocusManagement
        docpos_beginFocusManagement)
next
  case False
  from assms(2) False
  have "sorted_wrt (\<lambda>a b. docpos s a < docpos s b) (filter (passesFilter options) batch)"
    and "\<forall>t\<in>set (tabbableElements s).
           docpos s t < docpos s (hd (filter (passesFilter options) batch))
           \<or> docpos s (last (filter (passesFilter options) batch)) < docpos s t"
    by (simp_all add: batchFits_def inDocumentOrder_def Let_def)
  with assms(1) False show ?thesis
    using sorted_insert_run [of "docpos s" "tabbableElements s"
        "filter (passesFilter options) batch"]
    by (simp add: inDocumentOrder_def tabbable_beginFocusManagement Let_def
        docpos_beginFocusManagement)
qed

lemma sorted_wrt_remove1_any: "sorted_wrt R xs \<Longrightarrow> sorted_wrt R (remove1 x xs)"
  by (induction xs) (auto dest: notin_set_remove1)

lemma retire_keeps_order:
  assumes "inDocumentOrder s (tabbableElements s)"
  shows "inDocumentOrder (endFocusManagement options element s)
           (tabbableElements (endFocusManagement options element s))"
  using assms
  by (simp add: inDocumentOrder_def tabbable_endFocusManagement sorted_wrt_remove1_any
      docpos_endFocusManagement)

lemma runOps_keeps_order:
  "inDocumentOrder s (tabbableElements s) \<Longrightarrow> opsFit options s ops \<Longrightarrow>
   inDocumentOrder (runOps options ops s) (tabbableElements (runOps options ops s))"
proof (induction ops arbitrary: s)
  case Nil
  then show ?case by (simp add: runOps_def)
next
  case (Cons op ops)
  show ?case
  proof (cases op)
    case (Offer batch)
    with Cons.prems have "batchFits options s batch"
      and "opsFit options (beginFocusManagement options batch s) ops" by simp_all
    with Cons.prems(1) Cons.IH [of "beginFocusManagement options batch s"] Offer
    show ?thesis by (simp add: runOps_def offer_keeps_order)
  next
    case (Retire element)
    with Cons.prems have "opsFit options (endFocusManagement options element s) ops" by simp
    with Cons.prems(1) Cons.IH [of "endFocusManagement options element s"] Retire
    show ?thesis by (simp add: runOps_def retire_keeps_order)
  qed
qed

lemma inDocumentOrder_distinct: "inDocumentOrder s xs \<Longrightarrow> distinct xs"
  unfolding inDocumentOrder_def by (induction xs) auto

text \<open>
  Claim C7, amended. For every sequence of offer and retire operations in which each
  offered batch fits the collection it is offered to (what survives the filter is in
  document order, and every tracked element lies before the batch's first or after its
  last element, so no tracked element is offered again), a collection that is in
  document order stays in document order and holds no element twice.
\<close>

theorem tracker_stays_sorted_when_batches_fit:
  assumes "inDocumentOrder s (tabbableElements s)" and "opsFit options s ops"
  shows "inDocumentOrder (runOps options ops s) (tabbableElements (runOps options ops s))
         \<and> distinct (tabbableElements (runOps options ops s))"
proof -
  have "inDocumentOrder (runOps options ops s) (tabbableElements (runOps options ops s))"
    using assms by (rule runOps_keeps_order)
  then show ?thesis by (simp add: inDocumentOrder_distinct)
qed

theorem tracker_stays_sorted_when_batches_fit_witness:
  "inDocumentOrder blankPage (tabbableElements blankPage)
   \<and> opsFit rovingOptions blankPage [Offer [1, 9], Offer [3, 5], Retire 9, Offer [7]]
   \<and> inDocumentOrder
       (runOps rovingOptions [Offer [1, 9], Offer [3, 5], Retire 9, Offer [7]] blankPage)
       (tabbableElements
         (runOps rovingOptions [Offer [1, 9], Offer [3, 5], Retire 9, Offer [7]] blankPage))
   \<and> distinct (tabbableElements
         (runOps rovingOptions [Offer [1, 9], Offer [3, 5], Retire 9, Offer [7]] blankPage))"
proof -
  have h1: "inDocumentOrder blankPage (tabbableElements blankPage)"
    by (simp add: inDocumentOrder_def blankPage_def)
  have h2: "opsFit rovingOptions blankPage [Offer [1, 9], Offer [3, 5], Retire 9, Offer [7]]"
    by (simp add: batchFits_def inDocumentOrder_def tabbable_beginFocusManagement
        tabbable_endFocusManagement docpos_beginFocusManagement docpos_endFocusManagement
        passesFilter_def rovingOptions_def blankPage_def Let_def)
  from h1 h2 tracker_stays_sorted_when_batches_fit [OF h1 h2] show ?thesis by simp
qed

text \<open>
  Claim C7 as stated fails: two batches, each in document order, whose spans overlap
  leave the collection out of order, and offering a tracked element again leaves it in
  the collection twice.
\<close>

theorem tracker_unsorted_counterexample:
  "inDocumentOrder blankPage [1, 9] \<and> inDocumentOrder blankPage [3, 12]
   \<and> tabbableElements (runOps rovingOptions [Offer [1, 9], Offer [3, 12]] blankPage)
       = [1, 3, 12, 9]
   \<and> \<not> inDocumentOrder (runOps rovingOptions [Offer [1, 9], Offer [3, 12]] blankPage)
         (tabbableElements (runOps rovingOptions [Offer [1, 9], Offer [3, 12]] blankPage))
   \<and> \<not> distinct (tabbableElements (runOps rovingOptions [Offer [1], Offer [1]] blankPage))"
  by (simp add: runOps_def inDocumentOrder_def tabbable_beginFocusManagement
      docpos_beginFocusManagement passesFilter_def rovingOptions_def blankPage_def Let_def)

subsection \<open>Tab stops with a controlling element\<close>

text \<open>
  Claim C1, evaluated on the code. With a controlling element supplied, the startup
  scan and a later insertion observed by the mutation observer both set
  \<^verbatim>\<open>tabindex="-1"\<close> on elements that had no \<^verbatim>\<open>tabindex\<close>: \<^verbatim>\<open>beginFocusManagement\<close> writes the
  attribute itself, not through \<^verbatim>\<open>updateTabIndex\<close>, which is the only place that asks
  for the mode.
\<close>

theorem offer_sets_tabindex_with_controlling_element:
  "activeDescendantControl descendantOptions = Some 100
   \<and> tabindex blankPage 1 = None
   \<and> tabindex (arrowFocus descendantOptions [1, 2, 3] blankPage) 1 = Some ''-1''
   \<and> tabindex (arrowFocus descendantOptions [1, 2, 3] blankPage) 5 = None
   \<and> tabindex (dispatch descendantOptions (Mutations [([5], [])])
                 (arrowFocus descendantOptions [1, 2, 3] blankPage)) 5 = Some ''-1''"
  by (simp add: arrowFocus_def dispatch_def observer_def observeRecord_def observeAdded_def
      beginFocusManagement_def manageElement_def updateTabIndex_def passesFilter_def
      splice_insert_def descendantOptions_def rovingOptions_def blankPage_def Let_def)

subsection \<open>The next index\<close>

lemma suspendActiveDescendant_keeps:
  "currentFocusedIndex (suspendActiveDescendant options s) = currentFocusedIndex s"
  "tabbableElements (suspendActiveDescendant options s) = tabbableElements s"
  by (simp_all add: suspendActiveDescendant_def notifyActiveDescendant_def Let_def)

lemma moveFocusedIndex_tabbable:
  "tabbableElements (moveFocusedIndex options ev direction toEnd s) = tabbableElements s"
  by (simp add: moveFocusedIndex_def Let_def suspendActiveDescendant_keeps)

text \<open>
  The listener runs the block \<open>moveFocusedIndex\<close> exactly when the behaviour is not
  suspended and the override resolver supplies nothing.
\<close>

lemma chooseNext_moves:
  "\<not> activeDescendantSuspended s \<Longrightarrow> suppliedDestination options ev s = None \<Longrightarrow>
   fst (chooseNext options ev s)
     = moveFocusedIndex options ev (getDirection ev) (toEndOf options ev) s"
  by (simp add: chooseNext_def Let_def)

lemma keyHandled_direction:
  "keyHandled options ev \<Longrightarrow> \<exists>d. map_of KEY_TO_DIRECTION (key ev) = Some d"
  by (auto simp: keyHandled_def split: option.splits)

text \<open>
  Claim C2. For a collection of \<open>N \<ge> 1\<close> elements and a current index in \<open>[0, N-1]\<close>, the
  index the keydown listener computes when no destination was supplied (the block of
  lines 543 to 574) is the one of the specification's transition, for either
  direction, either value of \<open>toEnd\<close>, either wrap setting and every key; and that is
  the index the listener arrives at for a handled key when the behaviour is not
  suspended and the override resolver supplies nothing.
\<close>

theorem next_index_as_specified:
  assumes "tabbableElements s \<noteq> []"
    and "0 \<le> currentFocusedIndex s"
    and "currentFocusedIndex s < int (length (tabbableElements s))"
  shows "currentFocusedIndex (moveFocusedIndex options ev (Some direction) toEnd s)
           = spec_next (currentFocusedIndex s) direction toEnd (circular options)
               (int (length (tabbableElements s))) (key ev = ''Tab'')
         \<and> (keyHandled options ev \<and> \<not> activeDescendantSuspended s
              \<and> suppliedDestination options ev s = None
              \<and> getDirection ev = Some direction \<longrightarrow>
            currentFocusedIndex (fst (chooseNext options ev s))
              = spec_next (currentFocusedIndex s) direction (toEndOf options ev)
                  (circular options) (int (length (tabbableElements s)))
                  (key ev = ''Tab''))"
proof -
  from assms(1) have pos: "0 < int (length (tabbableElements s))" by simp
  have block: "currentFocusedIndex (moveFocusedIndex options ev (Some direction) e s)
               = spec_next (currentFocusedIndex s) direction e (circular options)
                   (int (length (tabbableElements s))) (key ev = ''Tab'')" for e
    using pos assms(2,3)
    by (cases direction)
       (simp_all add: moveFocusedIndex_def spec_next_def Let_def suspendActiveDescendant_keeps)
  show ?thesis
    using block [of toEnd] block [of "toEndOf options ev"]
    by (simp add: chooseNext_moves)
qed

lemmas behaviour_defs =
  arrowFocus_def dispatch_def keydown_def chooseNext_def moveFocusedIndex_def
  suppliedDestination_def keyHandled_def toEndOf_def getDirection_def
  shouldIgnoreFocusHandling_def bindKeys_def KEY_TO_BIT_def KEY_TO_DIRECTION_def
  focusin_def focusin_nested_def focusin_handler_def focus_element_def relatedOutside_def
  signalAborted_def mousedown_def observer_def observeRecord_def observeAdded_def
  observeRemoved_def beginFocusManagement_def endFocusManagement_def manageElement_def
  passesFilter_def updateTabIndex_def setTabindex_def setActiveDescendant_def
  suspendActiveDescendant_def notifyActiveDescendant_def at_index_def splice_insert_def
  splice_remove_def ArrowVertical_def ArrowHorizontal_def ArrowAll_def HomeAndEnd_def
  AllKeys_def HJKL_def JK_def HL_def WASD_def WS_def AD_def PageUpDown_def TabBit_def
  Let_def

lemmas fixture_defs =
  blankPage_def rovingOptions_def descendantOptions_def tabOptions_def customOptions_def
  pressed_def

lemma fixture_fields:
  "circular rovingOptions = False"
  "circular descendantOptions = False"
  "circular tabOptions = True"
  "activeDescendantControl rovingOptions = None"
  "activeDescendantControl tabOptions = None"
  "activeDescendantControl descendantOptions = Some 100"
  "hasActiveDescendantCallback descendantOptions = True"
  "key (pressed k) = k"
  "shiftKey (pressed k) = False"
  by (simp_all add: fixture_defs)

lemma fixtures_decline:
  "suppliedDestination rovingOptions ev s = None"
  "suppliedDestination descendantOptions ev s = None"
  "suppliedDestination tabOptions ev s = None"
  by (simp_all add: suppliedDestination_def fixture_defs)

lemma fixtures_handle:
  "keyHandled rovingOptions (pressed ''ArrowDown'')"
  "keyHandled rovingOptions (pressed ''ArrowUp'')"
  "keyHandled descendantOptions (pressed ''ArrowDown'')"
  "keyHandled descendantOptions (pressed ''ArrowUp'')"
  "keyHandled descendantOptions (pressed ''End'')"
  "keyHandled tabOptions (pressed ''Tab'')"
  by (simp_all add: behaviour_defs fixture_defs)

lemma rovingThree_fields:
  "tabbableElements rovingThree = [10, 20, 30]"
  "currentFocusedIndex rovingThree = 0"
  "activeDescendantSuspended rovingThree = False"
  "currentFocusedElement rovingThree = Some 10"
  "tabindex rovingThree 10 = Some ''0''"
  "tabindex rovingThree 20 = Some ''-1''"
  "tabindex rovingThree 30 = Some ''-1''"
  by (simp_all add: rovingThree_def behaviour_defs fixture_defs)

lemma descendantThree_fields:
  "tabbableElements descendantThree = [10, 20, 30]"
  "currentFocusedIndex descendantThree = 0"
  "activeDescendantSuspended descendantThree = True"
  "currentFocusedElement descendantThree = None"
  "callbackCalls descendantThree = []"
  by (simp_all add: descendantThree_def behaviour_defs fixture_defs)

lemma descendantAtFirst_fields:
  "tabbableElements descendantAtFirst = [10, 20, 30]"
  "currentFocusedIndex descendantAtFirst = 0"
  "activeDescendantSuspended descendantAtFirst = False"
  "currentFocusedElement descendantAtFirst = Some 10"
  "aria_activedescendant descendantAtFirst = Some ''id''"
  "callbackCalls descendantAtFirst = [(Some 10, None)]"
  "tabindex descendantAtFirst 10 = Some ''-1''"
  "controllerAborted descendantAtFirst = False"
  by (simp_all add: descendantAtFirst_def descendantThree_def behaviour_defs fixture_defs)

lemma descendantAtLast_fields:
  "tabbableElements descendantAtLast = [10, 20, 30]"
  "currentFocusedIndex descendantAtLast = 2"
  "activeDescendantSuspended descendantAtLast = False"
  "currentFocusedElement descendantAtLast = Some 30"
  "aria_activedescendant descendantAtLast = Some ''idx''"
  "callbackCalls descendantAtLast = [(Some 10, None), (Some 30, Some 10)]"
  by (simp_all add: descendantAtLast_def descendantAtFirst_def descendantThree_def
      behaviour_defs fixture_defs)

theorem next_index_as_specified_witness:
  "tabbableElements rovingThree \<noteq> []
   \<and> 0 \<le> currentFocusedIndex rovingThree
   \<and> currentFocusedIndex rovingThree < int (length (tabbableElements rovingThree))
   \<and> keyHandled rovingOptions (pressed ''ArrowDown'')
   \<and> \<not> activeDescendantSuspended rovingThree
   \<and> suppliedDestination rovingOptions (pressed ''ArrowDown'') rovingThree = None
   \<and> getDirection (pressed ''ArrowDown'') = Some Next
   \<and> currentFocusedIndex
       (moveFocusedIndex rovingOptions (pressed ''ArrowDown'') (Some Next) False rovingThree)
     = spec_next 0 Next False False 3 False
   \<and> currentFocusedIndex (fst (chooseNext rovingOptions (pressed ''ArrowDown'') rovingThree))
     = 1"
proof -
  have h1: "tabbableElements rovingThree \<noteq> []"
    by (simp add: rovingThree_fields)
  have h2: "0 \<le> currentFocusedIndex rovingThree"
    by (simp add: rovingThree_fields)
  have h3: "currentFocusedIndex rovingThree < int (length (tabbableElements rovingThree))"
    by (simp add: rovingThree_fields)
  have dir: "getDirection (pressed ''ArrowDown'') = Some Next"
    by (simp add: getDirection_def KEY_TO_DIRECTION_def fixture_defs)
  have toEnd: "\<not> toEndOf rovingOptions (pressed ''ArrowDown'')"
    by (simp add: toEndOf_def fixture_defs)
  have "spec_next 0 Next False False 3 False = 1" by (simp add: spec_next_def)
  with h1 h2 h3 dir toEnd
    next_index_as_specified [OF h1 h2 h3, of rovingOptions "pressed ''ArrowDown''" Next False]
  show ?thesis
    by (simp add: rovingThree_fields fixture_fields fixtures_handle fixtures_decline)
qed

subsection \<open>The Tab key\<close>



lemma keydown_prevented:
  "snd (keydown options ev s)
     = (keyHandled options ev
        \<and> (key ev \<noteq> ''Tab'' \<or> snd (chooseNext options ev s) \<noteq> None))"
  by (simp add: keydown_def Let_def split: prod.splits)

text \<open>With an override resolver supplying a destination, a handled Tab is consumed.\<close>

lemma supplied_destination_is_consumed:
  "keyHandled options ev \<Longrightarrow> \<not> activeDescendantSuspended s \<Longrightarrow>
   suppliedDestination options ev s = Some e \<Longrightarrow> snd (keydown options ev s)"
  by (simp add: keydown_prevented chooseNext_def Let_def)










subsection \<open>Suspension with a controlling element\<close>

text \<open>
  Claim C6. With a controlling element, a handled keypress received while suspended,
  whatever its key, direction and \<open>toEnd\<close>, leaves the index where it was, designates
  the element at that index (current element, \<^verbatim>\<open>aria-activedescendant\<close>, change callback
  with the new and the previous element) and ends the suspension; the keypress is
  consumed and no \<^verbatim>\<open>tabindex\<close> and no real focus is touched. The last known position is
  taken to be an index of the collection.
\<close>

theorem suspended_keypress_redesignates:
  assumes "activeDescendantControl options \<noteq> None"
    and "activeDescendantSuspended s"
    and "keyHandled options ev"
    and "0 \<le> currentFocusedIndex s"
    and "currentFocusedIndex s < int (length (tabbableElements s))"
  shows "(let s' = fst (keydown options ev s);
              e = tabbableElements s ! nat (currentFocusedIndex s)
          in \<not> activeDescendantSuspended s'
             \<and> currentFocusedIndex s' = currentFocusedIndex s
             \<and> tabbableElements s' = tabbableElements s
             \<and> currentFocusedElement s' = Some e
             \<and> aria_activedescendant s' = Some (elem_id s' e)
             \<and> callbackCalls s' =
                 (if hasActiveDescendantCallback options
                  then callbackCalls s @ [(Some e, currentFocusedElement s)]
                  else callbackCalls s)
             \<and> tabindex s' = tabindex s
             \<and> activeElement s' = activeElement s
             \<and> snd (keydown options ev s))"
  using assms
  by (simp add: keydown_def chooseNext_def setActiveDescendant_def
      notifyActiveDescendant_def at_index_def Let_def)

theorem suspended_keypress_redesignates_witness:
  "activeDescendantControl descendantOptions \<noteq> None
   \<and> activeDescendantSuspended descendantThree
   \<and> keyHandled descendantOptions (pressed ''ArrowUp'')
   \<and> 0 \<le> currentFocusedIndex descendantThree
   \<and> currentFocusedIndex descendantThree < int (length (tabbableElements descendantThree))
   \<and> \<not> activeDescendantSuspended
         (fst (keydown descendantOptions (pressed ''ArrowUp'') descendantThree))
   \<and> currentFocusedIndex
         (fst (keydown descendantOptions (pressed ''ArrowUp'') descendantThree)) = 0
   \<and> currentFocusedElement
         (fst (keydown descendantOptions (pressed ''ArrowUp'') descendantThree)) = Some 10
   \<and> callbackCalls
         (fst (keydown descendantOptions (pressed ''ArrowUp'') descendantThree))
       = [(Some 10, None)]"
proof -
  have h1: "activeDescendantControl descendantOptions \<noteq> None"
    by (simp add: fixture_fields)
  have h2: "activeDescendantSuspended descendantThree"
    by (simp add: descendantThree_fields)
  have h3: "keyHandled descendantOptions (pressed ''ArrowUp'')"
    by (simp add: fixtures_handle)
  have h4: "0 \<le> currentFocusedIndex descendantThree"
    by (simp add: descendantThree_fields)
  have h5: "currentFocusedIndex descendantThree
            < int (length (tabbableElements descendantThree))"
    by (simp add: descendantThree_fields)
  from suspended_keypress_redesignates [OF h1 h2 h3 h4 h5] h1 h2 h3 h4 h5
  show ?thesis
    by (simp add: Let_def descendantThree_fields fixture_fields)
qed

text \<open>
  Claim C3 as stated fails: with a controlling element and wrap disabled, a movement
  past the last element does not suspend. From the last of three elements, ArrowDown
  leaves the designation, the suspension flag and the list of callback calls as they
  were.
\<close>

theorem past_last_does_not_suspend_counterexample:
  "activeDescendantControl descendantOptions = Some 100
   \<and> \<not> circular descendantOptions
   \<and> currentFocusedIndex descendantAtLast
       = int (length (tabbableElements descendantAtLast)) - 1
   \<and> getDirection (pressed ''ArrowDown'') = Some Next
   \<and> \<not> toEndOf descendantOptions (pressed ''ArrowDown'')
   \<and> \<not> activeDescendantSuspended descendantAtLast
   \<and> \<not> activeDescendantSuspended
         (fst (keydown descendantOptions (pressed ''ArrowDown'') descendantAtLast))
   \<and> currentFocusedElement
         (fst (keydown descendantOptions (pressed ''ArrowDown'') descendantAtLast)) = Some 30
   \<and> callbackCalls
         (fst (keydown descendantOptions (pressed ''ArrowDown'') descendantAtLast))
       = callbackCalls descendantAtLast"
  by (simp add: descendantAtLast_fields fixture_fields fixtures_handle fixtures_decline
      keydown_def chooseNext_def moveFocusedIndex_def getDirection_def toEndOf_def
      KEY_TO_DIRECTION_def at_index_def Let_def)
    (simp add: fixture_defs)

lemma keydown_unchanged_at_last:
  assumes "keyHandled options ev"
    and "\<not> activeDescendantSuspended s"
    and "suppliedDestination options ev s = None"
    and "tabbableElements s \<noteq> []"
    and "\<not> toEndOf options ev"
    and "\<not> circular options"
    and "currentFocusedIndex s = int (length (tabbableElements s)) - 1"
    and "getDirection ev = Some Next"
  shows "fst (keydown options ev s) = s"
proof -
  from assms(4) have "0 < int (length (tabbableElements s))" by simp
  with assms have "moveFocusedIndex options ev (Some Next) False s = s"
    by (simp add: moveFocusedIndex_def Let_def)
  with assms show ?thesis
    by (simp add: keydown_def chooseNext_def Let_def)
qed

text \<open>
  Claim C3, amended. With a controlling element and wrap disabled, a movement that
  would land before the first element (index 0, direction previous, not to the end)
  enters the suspended state instead of clamping: the designation is cleared
  (\<^verbatim>\<open>aria-activedescendant\<close> removed, no current element), the change callback is invoked
  with (undefined, previousCurrent), and the index stays 0. A movement that would land
  past the last element does not suspend: it clamps, and the state is left as it was.
\<close>

theorem suspension_before_first_only:
  assumes "activeDescendantControl options \<noteq> None"
    and "\<not> circular options"
    and "keyHandled options ev"
    and "\<not> activeDescendantSuspended s"
    and "suppliedDestination options ev s = None"
    and "tabbableElements s \<noteq> []"
    and "\<not> toEndOf options ev"
  shows "(currentFocusedIndex s = 0 \<and> getDirection ev = Some Previous \<longrightarrow>
          (let s' = fst (keydown options ev s)
           in activeDescendantSuspended s'
              \<and> currentFocusedElement s' = None
              \<and> aria_activedescendant s' = None
              \<and> currentFocusedIndex s' = 0
              \<and> callbackCalls s' =
                  (if hasActiveDescendantCallback options
                   then callbackCalls s @ [(None, currentFocusedElement s)]
                   else callbackCalls s)))
         \<and> (currentFocusedIndex s = int (length (tabbableElements s)) - 1
            \<and> getDirection ev = Some Next \<longrightarrow>
            fst (keydown options ev s) = s)"
proof (intro conjI impI)
  assume a: "currentFocusedIndex s = 0 \<and> getDirection ev = Some Previous"
  from assms(6) have "0 < int (length (tabbableElements s))" by simp
  with assms a
  show "let s' = fst (keydown options ev s)
        in activeDescendantSuspended s'
           \<and> currentFocusedElement s' = None
           \<and> aria_activedescendant s' = None
           \<and> currentFocusedIndex s' = 0
           \<and> callbackCalls s' =
               (if hasActiveDescendantCallback options
                then callbackCalls s @ [(None, currentFocusedElement s)]
                else callbackCalls s)"
    by (simp add: keydown_def chooseNext_def moveFocusedIndex_def
        suspendActiveDescendant_def notifyActiveDescendant_def Let_def)
next
  assume "currentFocusedIndex s = int (length (tabbableElements s)) - 1
          \<and> getDirection ev = Some Next"
  with assms show "fst (keydown options ev s) = s"
    by (simp add: keydown_unchanged_at_last)
qed

theorem suspension_before_first_only_witness:
  "activeDescendantControl descendantOptions \<noteq> None
   \<and> \<not> circular descendantOptions
   \<and> keyHandled descendantOptions (pressed ''ArrowUp'')
   \<and> \<not> activeDescendantSuspended descendantAtFirst
   \<and> suppliedDestination descendantOptions (pressed ''ArrowUp'') descendantAtFirst = None
   \<and> tabbableElements descendantAtFirst \<noteq> []
   \<and> \<not> toEndOf descendantOptions (pressed ''ArrowUp'')
   \<and> currentFocusedIndex descendantAtFirst = 0
   \<and> getDirection (pressed ''ArrowUp'') = Some Previous
   \<and> activeDescendantSuspended
        (fst (keydown descendantOptions (pressed ''ArrowUp'') descendantAtFirst))
   \<and> callbackCalls (fst (keydown descendantOptions (pressed ''ArrowUp'') descendantAtFirst))
       = [(Some 10, None), (None, Some 10)]
   \<and> keyHandled descendantOptions (pressed ''ArrowDown'')
   \<and> \<not> activeDescendantSuspended descendantAtLast
   \<and> suppliedDestination descendantOptions (pressed ''ArrowDown'') descendantAtLast = None
   \<and> tabbableElements descendantAtLast \<noteq> []
   \<and> \<not> toEndOf descendantOptions (pressed ''ArrowDown'')
   \<and> currentFocusedIndex descendantAtLast
       = int (length (tabbableElements descendantAtLast)) - 1
   \<and> getDirection (pressed ''ArrowDown'') = Some Next
   \<and> fst (keydown descendantOptions (pressed ''ArrowDown'') descendantAtLast)
       = descendantAtLast"
proof -
  have h1: "activeDescendantControl descendantOptions \<noteq> None"
    and h2: "\<not> circular descendantOptions"
    by (simp_all add: fixture_fields)
  have up3: "keyHandled descendantOptions (pressed ''ArrowUp'')"
    and down3: "keyHandled descendantOptions (pressed ''ArrowDown'')"
    by (simp_all add: fixtures_handle)
  have up4: "\<not> activeDescendantSuspended descendantAtFirst"
    and up6: "tabbableElements descendantAtFirst \<noteq> []"
    by (simp_all add: descendantAtFirst_fields)
  have down4: "\<not> activeDescendantSuspended descendantAtLast"
    and down6: "tabbableElements descendantAtLast \<noteq> []"
    by (simp_all add: descendantAtLast_fields)
  have up5: "suppliedDestination descendantOptions (pressed ''ArrowUp'') descendantAtFirst
             = None"
    and down5: "suppliedDestination descendantOptions (pressed ''ArrowDown'')
                  descendantAtLast = None"
    by (simp_all add: fixtures_decline)
  have up7: "\<not> toEndOf descendantOptions (pressed ''ArrowUp'')"
    and down7: "\<not> toEndOf descendantOptions (pressed ''ArrowDown'')"
    by (simp_all add: toEndOf_def fixture_defs)
  have dirs: "getDirection (pressed ''ArrowUp'') = Some Previous"
    "getDirection (pressed ''ArrowDown'') = Some Next"
    by (simp_all add: getDirection_def KEY_TO_DIRECTION_def fixture_defs)
  from suspension_before_first_only [OF h1 h2 up3 up4 up5 up6 up7]
    suspension_before_first_only [OF h1 h2 down3 down4 down5 down6 down7]
    h1 h2 up3 up4 up5 up6 up7 down3 down4 down5 down6 down7 dirs
  show ?thesis
    by (simp add: Let_def descendantAtFirst_fields descendantAtLast_fields fixture_fields)
qed

subsection \<open>Retiring an element\<close>





subsection \<open>Keys on an empty collection\<close>

lemma empty_fields:
  "tabbableElements rovingEmpty = []"
  "currentFocusedIndex rovingEmpty = 0"
  "tabbableElements descendantEmpty = []"
  "currentFocusedIndex descendantEmpty = 0"
  "activeDescendantSuspended descendantEmpty = True"
  "callbackCalls descendantEmpty = []"
  by (simp_all add: rovingEmpty_def descendantEmpty_def behaviour_defs fixture_defs)

text \<open>
  Claim C10 as stated fails: on an empty collection a bound keypress changes the
  controller's state. Without a controlling element, ArrowDown moves the current index
  from 0 to -1. With one, the first ArrowDown after startup clears the suspension flag,
  and a following ArrowUp sets it again and invokes the change callback.
\<close>

theorem empty_collection_state_changes_counterexample:
  "tabbableElements rovingEmpty = [] \<and> keyHandled rovingOptions (pressed ''ArrowDown'')
   \<and> currentFocusedIndex rovingEmpty = 0
   \<and> currentFocusedIndex (fst (keydown rovingOptions (pressed ''ArrowDown'') rovingEmpty))
       = - 1
   \<and> tabbableElements descendantEmpty = []
   \<and> keyHandled descendantOptions (pressed ''ArrowDown'')
   \<and> activeDescendantSuspended descendantEmpty
   \<and> \<not> activeDescendantSuspended
         (fst (keydown descendantOptions (pressed ''ArrowDown'') descendantEmpty))
   \<and> callbackCalls descendantEmpty = []
   \<and> callbackCalls
        (fst (keydown descendantOptions (pressed ''ArrowUp'')
           (fst (keydown descendantOptions (pressed ''ArrowDown'') descendantEmpty))))
       = [(None, None)]"
  by (simp add: rovingEmpty_def descendantEmpty_def behaviour_defs fixture_defs)

lemma at_index_Nil: "at_index [] i = None"
  by (simp add: at_index_def)

lemma chooseNext_empty_suspended:
  "tabbableElements s = [] \<Longrightarrow> activeDescendantSuspended s \<Longrightarrow>
   chooseNext options ev s = (s\<lparr>activeDescendantSuspended := False\<rparr>, None)"
  by (simp add: chooseNext_def at_index_Nil Let_def)

lemma chooseNext_empty_active:
  "tabbableElements s = [] \<Longrightarrow> \<not> activeDescendantSuspended s \<Longrightarrow>
   suppliedDestination options ev s = None \<Longrightarrow>
   chooseNext options ev s =
     (moveFocusedIndex options ev (getDirection ev) (toEndOf options ev) s, None)"
  by (simp add: chooseNext_def at_index_Nil moveFocusedIndex_tabbable Let_def)

lemma keydown_without_destination:
  "keyHandled options ev \<Longrightarrow> chooseNext options ev s = (s1, None) \<Longrightarrow>
   fst (keydown options ev s) = s1"
  by (simp add: keydown_def)

text \<open>
  Claim C10, amended. For every bound navigation keypress received while the tracked
  collection is empty, with no destination supplied by an override resolver: no element
  is focused or designated (the active element stays, no element becomes current,
  \<^verbatim>\<open>aria-activedescendant\<close> is at most removed, and the change callback is at most invoked
  with (undefined, previousCurrent)), no \<^verbatim>\<open>tabindex\<close> and no \<^verbatim>\<open>id\<close> is changed, and the
  collection stays empty. The current index and the suspension flag may change.
\<close>

theorem empty_collection_moves_nothing:
  assumes "tabbableElements s = []"
    and "keyHandled options ev"
    and "suppliedDestination options ev s = None"
  shows "(let s' = fst (keydown options ev s)
          in tabbableElements s' = []
             \<and> activeElement s' = activeElement s
             \<and> tabindex s' = tabindex s
             \<and> elem_id s' = elem_id s
             \<and> (currentFocusedElement s' = currentFocusedElement s
                 \<or> currentFocusedElement s' = None)
             \<and> (aria_activedescendant s' = aria_activedescendant s
                 \<or> aria_activedescendant s' = None)
             \<and> (callbackCalls s' = callbackCalls s
                 \<or> callbackCalls s' = callbackCalls s @ [(None, currentFocusedElement s)]))"
proof (cases "activeDescendantSuspended s")
  case True
  with assms have "fst (keydown options ev s) = s\<lparr>activeDescendantSuspended := False\<rparr>"
    by (simp add: keydown_without_destination chooseNext_empty_suspended)
  with assms(1) show ?thesis by (simp add: Let_def)
next
  case False
  with assms have "fst (keydown options ev s)
      = moveFocusedIndex options ev (getDirection ev) (toEndOf options ev) s"
    by (simp add: keydown_without_destination chooseNext_empty_active)
  with assms(1) show ?thesis
    by (simp add: moveFocusedIndex_def suspendActiveDescendant_def
        notifyActiveDescendant_def Let_def)
qed

theorem empty_collection_moves_nothing_witness:
  "tabbableElements descendantEmpty = []
   \<and> keyHandled descendantOptions (pressed ''ArrowDown'')
   \<and> suppliedDestination descendantOptions (pressed ''ArrowDown'') descendantEmpty = None
   \<and> tabbableElements (fst (keydown descendantOptions (pressed ''ArrowDown'') descendantEmpty))
       = []
   \<and> tabindex (fst (keydown descendantOptions (pressed ''ArrowDown'') descendantEmpty))
       = tabindex descendantEmpty
   \<and> activeElement (fst (keydown descendantOptions (pressed ''ArrowDown'') descendantEmpty))
       = activeElement descendantEmpty"
proof -
  have h1: "tabbableElements descendantEmpty = []" by (simp add: empty_fields)
  have h2: "keyHandled descendantOptions (pressed ''ArrowDown'')"
    by (simp add: fixtures_handle)
  have h3: "suppliedDestination descendantOptions (pressed ''ArrowDown'') descendantEmpty
            = None"
    by (simp add: fixtures_decline)
  from empty_collection_moves_nothing [OF h1 h2 h3] h1 h2 h3
  show ?thesis by (simp add: Let_def)
qed

subsection \<open>A custom focus-entry policy that names no tracked element\<close>

text \<open>
  Claim C9, evaluated on the code. Focus enters at element 30 from element 200, which
  is outside the container, and the custom policy returns no element. The listener
  warns once and makes 30 the current element, but the tab stop stays on element 10 and
  30 keeps \<^verbatim>\<open>tabindex="-1"\<close>; under the policy \<^verbatim>\<open>'previous'\<close> the same event moves the tab
  stop to 30. After the next ArrowDown two elements carry \<^verbatim>\<open>tabindex="0"\<close>.
\<close>

theorem custom_fallback_leaves_tab_stop:
  "relatedOutside customThree (Some 200)
   \<and> warnings (dispatch customOptions (FocusIn 30 (Some 200)) customThree) = 1
   \<and> uncaughtErrors (dispatch customOptions (FocusIn 30 (Some 200)) customThree) = 0
   \<and> currentFocusedElement (dispatch customOptions (FocusIn 30 (Some 200)) customThree)
       = Some 30
   \<and> tabindex (dispatch customOptions (FocusIn 30 (Some 200)) customThree) 30 = Some ''-1''
   \<and> tabindex (dispatch customOptions (FocusIn 30 (Some 200)) customThree) 10 = Some ''0''
   \<and> tabindex (dispatch rovingOptions (FocusIn 30 (Some 200)) rovingThree) 30 = Some ''0''
   \<and> tabindex (dispatch rovingOptions (FocusIn 30 (Some 200)) rovingThree) 10 = Some ''-1''
   \<and> tabindex (dispatch customOptions (KeyDown (pressed ''ArrowDown''))
                (dispatch customOptions (FocusIn 30 (Some 200)) customThree)) 10 = Some ''0''
   \<and> tabindex (dispatch customOptions (KeyDown (pressed ''ArrowDown''))
                (dispatch customOptions (FocusIn 30 (Some 200)) customThree)) 20 = Some ''0''"
  by (simp add: customThree_def rovingThree_def behaviour_defs fixture_defs)

subsection \<open>Cancellation\<close>

text \<open>
  Claim C4, evaluated on the code. After the returned controller is aborted the keydown
  listener is detached (a key press leaves the state as it is), but the \<^verbatim>\<open>focusout\<close>
  listener of the controlling element still runs: it removes \<^verbatim>\<open>aria-activedescendant\<close> and
  invokes the change callback. The mutation observer still runs too: an element
  inserted after the abort is tracked and given \<^verbatim>\<open>tabindex="-1"\<close>.
\<close>

theorem abort_leaves_focusout_and_observer_attached:
  "controllerAborted (dispatch descendantOptions Abort descendantAtFirst)
   \<and> dispatch descendantOptions (KeyDown (pressed ''ArrowDown''))
        (dispatch descendantOptions Abort descendantAtFirst)
       = dispatch descendantOptions Abort descendantAtFirst
   \<and> aria_activedescendant (dispatch descendantOptions Abort descendantAtFirst) = Some ''id''
   \<and> aria_activedescendant
        (dispatch descendantOptions FocusOut
           (dispatch descendantOptions Abort descendantAtFirst)) = None
   \<and> callbackCalls
        (dispatch descendantOptions FocusOut
           (dispatch descendantOptions Abort descendantAtFirst))
       = [(Some 10, None), (None, Some 10)]
   \<and> tabindex (dispatch rovingOptions Abort rovingThree) 15 = None
   \<and> tabindex (dispatch rovingOptions (Mutations [([15], [])])
                (dispatch rovingOptions Abort rovingThree)) 15 = Some ''-1''
   \<and> tabbableElements (dispatch rovingOptions (Mutations [([15], [])])
                (dispatch rovingOptions Abort rovingThree)) = [10, 15, 20, 30]"
  by (simp add: descendantAtFirst_def descendantThree_def rovingThree_def
      behaviour_defs fixture_defs)

text \<open>
  The nested run of the \<^verbatim>\<open>focusin\<close> listener: when the related target is not outside
  the container the listener reaches no \<^verbatim>\<open>.focus()\<close>, so what such a call would do
  does not matter.
\<close>

lemma focusin_handler_inside:
  "\<not> relatedOutside s relatedTarget \<Longrightarrow>
   focusin_handler f options target relatedTarget s
     = focusin_handler g options target relatedTarget s"
  by (simp add: focusin_handler_def split: option.splits FocusInStrategy.splits)

end
